theory Spec2Isabelle
  imports Complex_Main "HOL-Library.Signed_Division"
begin

section \<open>The graph model handed to the sprite engine\<close>

text \<open>
  The sprite package works on two yed graphs (state and anim). The yed library keeps
  nodes and edges as heap objects that point at each other; here a graph is an arena:
  a node is its index in \<open>nodes\<close> (yed's \<open>Node(i)\<close>, with \<open>Id() = i\<close>) and
  an edge is its index in \<open>edges\<close>. A node pointer of the source is never nil once a
  sprite is loaded, so node references are plain indices; an edge pointer can be nil
  and is a \<open>nat option\<close>.

  The tables \<open>node_data\<close> and \<open>edge_data\<close> of the shared sprite are keyed by those
  pointers; their entries are kept with the node and the edge (\<open>time\<close>,
  \<open>nd_state\<close>; \<open>ed_facing\<close>, \<open>weight\<close>, \<open>cmd\<close>). Looking up a nil edge in
  \<open>edge_data\<close> gives Go's zero value: facing 0.

  Go's \<open>int64\<close> and \<open>int\<close> are modelled as \<open>int\<close> (simulated milliseconds
  and facing indices stay far from the 64-bit bounds), \<open>float64\<close> weights and costs
  as \<open>real\<close>.
\<close>

record yNode =
  line0 :: string
  tag_sync :: string
  tag_func :: string
  ngroup :: "nat option"
  outputs :: "nat list"
  group_outputs :: "nat list"
  time :: int
  nd_state :: string

record yEdge =
  src :: nat
  dst :: nat
  ed_facing :: int
  weight :: real
  cmd :: string

record yGraph =
  nodes :: "yNode list"
  edges :: "yEdge list"

record sharedSprite =
  anim :: yGraph
  state :: yGraph
  anim_start :: nat
  state_start :: nat
  num_facings :: nat

datatype panic = IndexOutOfRange | SliceBounds | NilDereference | DivideByZero

definition NumNodes :: "yGraph \<Rightarrow> nat" where
  "NumNodes g = length (nodes g)"

text \<open>\<open>g.Node(i)\<close> of the yed library: indexing the node slice.\<close>

definition Node :: "yGraph \<Rightarrow> int \<Rightarrow> panic + nat" where
  "Node g i = (if 0 \<le> i \<and> i < int (NumNodes g) then Inr (nat i) else Inl IndexOutOfRange)"

subsection \<open>Random edge selection\<close>

text \<open>
  \<open>rand.Float64()\<close> reads the process-wide generator. The generator is a list of the
  draws still to come; an exhausted list keeps giving 0.
\<close>

definition Float64 :: "real list \<Rightarrow> real \<times> real list" where
  "Float64 rng = (case rng of [] \<Rightarrow> (0, []) | r # rs \<Rightarrow> (r, rs))"

text \<open>The first loop of \<open>selectAnEdge\<close>: the total weight of the outputs whose command is listed.\<close>

fun sum_weights :: "yGraph \<Rightarrow> string list \<Rightarrow> nat list \<Rightarrow> real \<Rightarrow> real" where
  "sum_weights g cmds [] tot = tot"
| "sum_weights g cmds (e # es) tot =
     (if cmd (edges g ! e) \<notin> set cmds then sum_weights g cmds es tot
      else sum_weights g cmds es (tot + weight (edges g ! e)))"

text \<open>The second loop: the first listed output at which the running total reaches the pick.\<close>

fun pick_edge :: "yGraph \<Rightarrow> string list \<Rightarrow> real \<Rightarrow> nat list \<Rightarrow> real \<Rightarrow> nat option" where
  "pick_edge g cmds pick [] tot = None"
| "pick_edge g cmds pick (e # es) tot =
     (if cmd (edges g ! e) \<notin> set cmds then pick_edge g cmds pick es tot
      else if tot + weight (edges g ! e) \<ge> pick then Some e
      else pick_edge g cmds pick es (tot + weight (edges g ! e)))"

definition selectAnEdge :: "yGraph \<Rightarrow> real list \<Rightarrow> nat \<Rightarrow> string list \<Rightarrow> nat option \<times> real list" where
  "selectAnEdge g rng node cmds =
     (if sum_weights g cmds (outputs (nodes g ! node)) 0 > 0
      then (case Float64 rng of (r, rng') \<Rightarrow>
              (pick_edge g cmds (r * sum_weights g cmds (outputs (nodes g ! node)) 0)
                 (outputs (nodes g ! node)) 0, rng'))
      else (None, rng))"

fun connectedByGroupEdge_loop :: "yGraph \<Rightarrow> nat \<Rightarrow> nat \<Rightarrow> nat list \<Rightarrow> bool" where
  "connectedByGroupEdge_loop g n1 n2 [] = False"
| "connectedByGroupEdge_loop g n1 n2 (e # es) =
     (if src (edges g ! e) \<noteq> n1 \<and> dst (edges g ! e) = n2 then True
      else connectedByGroupEdge_loop g n1 n2 es)"

definition connectedByGroupEdge :: "yGraph \<Rightarrow> nat \<Rightarrow> nat \<Rightarrow> bool" where
  "connectedByGroupEdge g n1 n2 = connectedByGroupEdge_loop g n1 n2 (group_outputs (nodes g ! n1))"

section \<open>Path finding\<close>

record pathingGraph =
  pg_shared :: sharedSprite
  pg_start :: nat
  pg_cmd :: string

definition NumVertex :: "pathingGraph \<Rightarrow> nat" where
  "NumVertex p = NumNodes (anim (pg_shared p)) + 1"

text \<open>
  The loop of \<open>pathingGraph.Adjacent\<close> over the group outputs of the node: an edge whose
  command is neither empty nor the graph's command is skipped, every other edge adds its
  destination and the cost 1.
\<close>

fun Adjacent_loop :: "pathingGraph \<Rightarrow> nat list \<Rightarrow> nat list \<times> real list \<Rightarrow> nat list \<times> real list" where
  "Adjacent_loop p [] acc = acc"
| "Adjacent_loop p (e # es) (adj, cost) =
     (if cmd (edges (anim (pg_shared p)) ! e) \<noteq> [] \<and> cmd (edges (anim (pg_shared p)) ! e) \<noteq> pg_cmd p
      then Adjacent_loop p es (adj, cost)
      else Adjacent_loop p es (adj @ [dst (edges (anim (pg_shared p)) ! e)], cost @ [1]))"

definition Adjacent :: "pathingGraph \<Rightarrow> nat \<Rightarrow> nat list \<times> real list" where
  "Adjacent p n =
     (let node = (if n = NumNodes (anim (pg_shared p)) then pg_start p else n)
      in Adjacent_loop p (group_outputs (nodes (anim (pg_shared p)) ! node)) ([], []))"




text \<open>
  Modelled from the spec: \<open>algorithm.Dijkstra\<close> (package util/algorithm of this
  repository) is not among the sources. The spec says of it: "Computes the minimum-cost
  path via a standard shortest-path algorithm over non-negative weights (Dijkstra); ties
  are broken by the algorithm's traversal order (not semantically significant)". The
  graph is given by its number of vertices and its \<open>Adjacent\<close> function; the result is the
  cost and the vertices of a cheapest path from one of the sources to one of the
  destinations, the source first. Every vertex keeps the cheapest cost found so far and
  the path to it (reversed); all edges are relaxed once per vertex of the graph. What is
  returned when no destination can be reached is not fixed by the spec: it is the empty
  path here, and no theorem below depends on that choice.
\<close>

type_synonym dtable = "(real \<times> nat list) option list"

definition relax :: "real \<Rightarrow> nat list \<Rightarrow> dtable \<Rightarrow> nat \<times> real \<Rightarrow> dtable" where
  "relax d p tb vk =
     (case vk of (v, k) \<Rightarrow>
        if v < length tb then
          (case tb ! v of
             None \<Rightarrow> tb[v := Some (d + k, v # p)]
           | Some (d', p') \<Rightarrow> if d + k < d' then tb[v := Some (d + k, v # p)] else tb)
        else tb)"

definition relax_from :: "(nat \<Rightarrow> nat list \<times> real list) \<Rightarrow> dtable \<Rightarrow> nat \<Rightarrow> dtable" where
  "relax_from adjacent tb u =
     (case tb ! u of
        None \<Rightarrow> tb
      | Some (d, p) \<Rightarrow> foldl (relax d p) tb (zip (fst (adjacent u)) (snd (adjacent u))))"

fun relax_rounds :: "nat \<Rightarrow> (nat \<Rightarrow> nat list \<times> real list) \<Rightarrow> dtable \<Rightarrow> dtable" where
  "relax_rounds 0 adjacent tb = tb"
| "relax_rounds (Suc k) adjacent tb =
     relax_rounds k adjacent (foldl (relax_from adjacent) tb [0..<length tb])"

fun cheapest :: "dtable \<Rightarrow> nat list \<Rightarrow> (real \<times> nat list) option \<Rightarrow> (real \<times> nat list) option" where
  "cheapest tb [] best = best"
| "cheapest tb (v # vs) best =
     (if v < length tb then
        (case tb ! v of
           None \<Rightarrow> cheapest tb vs best
         | Some (d, p) \<Rightarrow>
             (case best of
                None \<Rightarrow> cheapest tb vs (Some (d, p))
              | Some (d', p') \<Rightarrow> if d < d' then cheapest tb vs (Some (d, p)) else cheapest tb vs best))
      else cheapest tb vs best)"

definition Dijkstra :: "nat \<Rightarrow> (nat \<Rightarrow> nat list \<times> real list) \<Rightarrow> nat list \<Rightarrow> nat list \<Rightarrow> real \<times> nat list" where
  "Dijkstra n adjacent srcs dsts =
     (case cheapest
             (relax_rounds n adjacent
                (foldl (\<lambda>tb s. if s < n then tb[s := Some (0, [s])] else tb) (replicate n None) srcs))
             dsts None of
        None \<Rightarrow> (- 1, [])
      | Some (d, p) \<Rightarrow> (d, rev p))"

text \<open>The ids of a Dijkstra path turned back into nodes with \<open>anim.Node(id)\<close>.\<close>

fun Nodes_of :: "yGraph \<Rightarrow> nat list \<Rightarrow> panic + nat list" where
  "Nodes_of g [] = Inr []"
| "Nodes_of g (i # is) =
     (case Node g (int i) of
        Inl e \<Rightarrow> Inl e
      | Inr n \<Rightarrow> (case Nodes_of g is of Inl e \<Rightarrow> Inl e | Inr ns \<Rightarrow> Inr (n # ns)))"

text \<open>
  \<open>findPathForCmd\<close>: one search per name of the command, each from the end of the path so
  far. The destinations are the targets of all anim edges that carry the name. The slice
  \<open>path[1:]\<close> panics on a path of length 0. A nil path and an empty path are both \<open>[]\<close>:
  \<open>node_path\<close> is nil exactly when nothing was appended.
\<close>

fun findPathForCmd_loop :: "sharedSprite \<Rightarrow> string list \<Rightarrow> nat \<Rightarrow> nat list \<Rightarrow> panic + nat list" where
  "findPathForCmd_loop sh [] anim_node node_path = Inr node_path"
| "findPathForCmd_loop sh (name # rest) anim_node node_path =
     (case snd (Dijkstra
                  (NumVertex \<lparr>pg_shared = sh, pg_start = anim_node, pg_cmd = name\<rparr>)
                  (Adjacent \<lparr>pg_shared = sh, pg_start = anim_node, pg_cmd = name\<rparr>)
                  [NumNodes (anim sh)]
                  (map dst (filter (\<lambda>e. cmd e = name) (edges (anim sh))))) of
        [] \<Rightarrow> Inl SliceBounds
      | v # ids \<Rightarrow>
          (case Nodes_of (anim sh) ids of
             Inl e \<Rightarrow> Inl e
           | Inr ns \<Rightarrow>
               findPathForCmd_loop sh rest
                 (if node_path @ ns \<noteq> [] then last (node_path @ ns) else anim_node)
                 (node_path @ ns)))"

definition findPathForCmd :: "sharedSprite \<Rightarrow> string list \<Rightarrow> nat \<Rightarrow> panic + nat list" where
  "findPathForCmd sh cmd_names anim_node = findPathForCmd_loop sh cmd_names anim_node []"

section \<open>Sprites, commands and command groups\<close>

text \<open>
  Sprites and command groups are heap objects that refer to each other (a command points
  at its group, a group lists its sprites and maps them to waits and paths), so they live
  in a store: a sprite or a group is named by its address. The store also holds the
  random generator and a log of what the engine did to the outside: sheets loaded and
  unloaded, trigger functions called, waiters signalled. A trigger function is a callback
  of the caller; it is taken to observe only.

  A waiter's \<open>states\<close> slice can be nil (\<open>None\<close>), which is how a resolved waiter is
  marked; its channel is named by a number. The maps \<open>eta\<close> and \<open>paths\<close> of a group are
  total functions: reading a missing key of a Go map gives 0 and the nil path.
\<close>

record command =
  names :: "string list"
  cmd_group :: "nat option"

record waiter =
  states :: "string list option"
  chan :: nat

record Sprite =
  shared :: sharedSprite
  anim_node :: nat
  state_node :: nat
  trigger :: bool
  thinks :: nat
  facing :: int
  prev_facing :: int
  state_facing :: int
  togo :: int
  path :: "nat list"
  pending_cmds :: "command list"
  waiters :: "waiter list"

record commandGroup =
  sync_tag :: string
  sprites :: "nat list"
  was_ready :: bool
  eta :: "nat \<Rightarrow> int"
  paths :: "nat \<Rightarrow> nat list"

datatype event = Load nat int | Unload nat int | Trigger nat string | Signal nat nat

record world =
  sprite_at :: "nat \<Rightarrow> Sprite"
  group_at :: "nat \<Rightarrow> commandGroup"
  rng :: "real list"
  events :: "event list"
  next_group :: nat

text \<open>The sprite \<open>Manager.LoadSprite\<close> returns: on the start nodes, every other field zero.\<close>

definition LoadSprite :: "sharedSprite \<Rightarrow> Sprite" where
  "LoadSprite sh =
     \<lparr>shared = sh, anim_node = anim_start sh, state_node = state_start sh, trigger = False,
      thinks = 0, facing = 0, prev_facing = 0, state_facing = 0, togo = 0, path = [],
      pending_cmds = [], waiters = []\<rparr>"

definition SetTriggerFunc :: "world \<Rightarrow> nat \<Rightarrow> world" where
  "SetTriggerFunc w sid = w\<lparr>sprite_at := (sprite_at w)(sid := (sprite_at w sid)\<lparr>trigger := True\<rparr>)\<rparr>"

text \<open>\<open>shared.facings[i].Load()\<close> and \<open>Unload()\<close>: indexing the facings, then the sheet call.\<close>

definition sheet_Load :: "world \<Rightarrow> nat \<Rightarrow> int \<Rightarrow> panic + world" where
  "sheet_Load w sid i =
     (if 0 \<le> i \<and> i < int (num_facings (shared (sprite_at w sid)))
      then Inr (w\<lparr>events := events w @ [Load sid i]\<rparr>) else Inl IndexOutOfRange)"

definition sheet_Unload :: "world \<Rightarrow> nat \<Rightarrow> int \<Rightarrow> panic + world" where
  "sheet_Unload w sid i =
     (if 0 \<le> i \<and> i < int (num_facings (shared (sprite_at w sid)))
      then Inr (w\<lparr>events := events w @ [Unload sid i]\<rparr>) else Inl IndexOutOfRange)"

definition doTrigger :: "world \<Rightarrow> nat \<Rightarrow> world" where
  "doTrigger w sid =
     (if trigger (sprite_at w sid)
         \<and> tag_func (nodes (anim (shared (sprite_at w sid))) ! anim_node (sprite_at w sid)) \<noteq> []
      then w\<lparr>events := events w @
             [Trigger sid (tag_func (nodes (anim (shared (sprite_at w sid))) ! anim_node (sprite_at w sid)))]\<rparr>
      else w)"

definition AnimState :: "Sprite \<Rightarrow> string" where
  "AnimState s = nd_state (nodes (anim (shared s)) ! anim_node s)"

definition NumPendingCmds :: "Sprite \<Rightarrow> nat" where
  "NumPendingCmds s = length (pending_cmds s)"

subsection \<open>Command intake\<close>

text \<open>
  \<open>baseCommand\<close> has three loops. The first walks the state graph along the names without
  touching the sprite and gives up (\<open>None\<close>) at the first name with no edge; otherwise it
  ends on the node its local \<open>state_node\<close> has reached. The second walks again
  from the sprite's state node (selecting afresh), moving the sprite and turning its
  state facing; a nil edge there is dereferenced. The third follows unlabelled edges
  until there is none; it can go round for ever, so it runs on fuel.
\<close>

fun baseCommand_check :: "yGraph \<Rightarrow> real list \<Rightarrow> nat \<Rightarrow> string list \<Rightarrow> nat option \<times> real list" where
  "baseCommand_check g r n [] = (Some n, r)"
| "baseCommand_check g r n (name # rest) =
     (case selectAnEdge g r n [name] of
        (None, r') \<Rightarrow> (None, r')
      | (Some e, r') \<Rightarrow> baseCommand_check g r' (dst (edges g ! e)) rest)"

fun baseCommand_commit :: "sharedSprite \<Rightarrow> real list \<Rightarrow> nat \<Rightarrow> int \<Rightarrow> string list \<Rightarrow> panic + (nat \<times> int \<times> real list)" where
  "baseCommand_commit sh r n f [] = Inr (n, f, r)"
| "baseCommand_commit sh r n f (name # rest) =
     (case selectAnEdge (state sh) r n [name] of
        (None, r') \<Rightarrow> Inl NilDereference
      | (Some e, r') \<Rightarrow>
          if num_facings sh = 0 then Inl DivideByZero
          else baseCommand_commit sh r' (dst (edges (state sh) ! e))
                 ((f + ed_facing (edges (state sh) ! e) + int (num_facings sh)) smod int (num_facings sh))
                 rest)"

fun baseCommand_settle :: "nat \<Rightarrow> yGraph \<Rightarrow> real list \<Rightarrow> nat \<Rightarrow> (nat \<times> real list) option" where
  "baseCommand_settle 0 g r n = None"
| "baseCommand_settle (Suc k) g r n =
     (case selectAnEdge g r n [[]] of
        (None, r') \<Rightarrow> Some (n, r')
      | (Some e, r') \<Rightarrow> baseCommand_settle k g r' (dst (edges g ! e)))"

definition baseCommand :: "nat \<Rightarrow> world \<Rightarrow> nat \<Rightarrow> command \<Rightarrow> (panic + bool \<times> world) option" where
  "baseCommand k w sid c =
     (case baseCommand_check (state (shared (sprite_at w sid))) (rng w) (state_node (sprite_at w sid)) (names c) of
        (None, r1) \<Rightarrow> Some (Inr (False, w\<lparr>rng := r1\<rparr>))
      | (Some n1, r1) \<Rightarrow>
          (case baseCommand_commit (shared (sprite_at w sid)) r1 (state_node (sprite_at w sid))
                  (state_facing (sprite_at w sid)) (names c) of
             Inl e \<Rightarrow> Some (Inl e)
           | Inr (n, f, r2) \<Rightarrow>
               (case baseCommand_settle k (state (shared (sprite_at w sid))) r2 n of
                  None \<Rightarrow> None
                | Some (n', r3) \<Rightarrow>
                    Some (Inr (True,
                      w\<lparr>rng := r3,
                        sprite_at := (sprite_at w)(sid := (sprite_at w sid)
                          \<lparr>state_node := n', state_facing := f,
                           pending_cmds := pending_cmds (sprite_at w sid) @ [c]\<rparr>)\<rparr>)))))"

definition Command :: "nat \<Rightarrow> world \<Rightarrow> nat \<Rightarrow> string \<Rightarrow> (panic + world) option" where
  "Command k w sid name =
     (case baseCommand k w sid \<lparr>names = [name], cmd_group = None\<rparr> of
        None \<Rightarrow> None
      | Some (Inl e) \<Rightarrow> Some (Inl e)
      | Some (Inr (ok, w')) \<Rightarrow> Some (Inr w'))"

definition CommandN :: "nat \<Rightarrow> world \<Rightarrow> nat \<Rightarrow> string list \<Rightarrow> (panic + world) option" where
  "CommandN k w sid cmds =
     (case baseCommand k w sid \<lparr>names = cmds, cmd_group = None\<rparr> of
        None \<Rightarrow> None
      | Some (Inl e) \<Rightarrow> Some (Inl e)
      | Some (Inr (ok, w')) \<Rightarrow> Some (Inr w'))"

text \<open>
  \<open>CommandSync\<close> makes a fresh group (at the store's next free address) and puts into it
  every sprite that accepts its command.
\<close>

fun CommandSync_loop :: "nat \<Rightarrow> world \<Rightarrow> nat \<Rightarrow> nat list \<Rightarrow> string list list \<Rightarrow> nat \<Rightarrow> (panic + world) option" where
  "CommandSync_loop k w gid [] cmds i = Some (Inr w)"
| "CommandSync_loop k w gid (sp # ss) cmds i =
     (if i \<ge> length cmds then Some (Inl IndexOutOfRange)
      else (case baseCommand k w sp \<lparr>names = cmds ! i, cmd_group = Some gid\<rparr> of
              None \<Rightarrow> None
            | Some (Inl e) \<Rightarrow> Some (Inl e)
            | Some (Inr (False, w')) \<Rightarrow> CommandSync_loop k w' gid ss cmds (Suc i)
            | Some (Inr (True, w')) \<Rightarrow>
                CommandSync_loop k
                  (w'\<lparr>group_at := (group_at w')(gid := (group_at w' gid)\<lparr>sprites := sprites (group_at w' gid) @ [sp]\<rparr>)\<rparr>)
                  gid ss cmds (Suc i)))"

definition CommandSync :: "nat \<Rightarrow> world \<Rightarrow> nat list \<Rightarrow> string list list \<Rightarrow> string \<Rightarrow> (panic + world) option" where
  "CommandSync k w ss cmds tag =
     CommandSync_loop k
       (w\<lparr>next_group := Suc (next_group w),
          group_at := (group_at w)(next_group w :=
            \<lparr>sync_tag = tag, sprites = [], was_ready = False, eta = (\<lambda>_. 0), paths = (\<lambda>_. [])\<rparr>)\<rparr>)
       (next_group w) ss cmds 0"


subsection \<open>Synchronised paths and the barrier\<close>

text \<open>
  The loop of \<open>findPathForSyncedCmd\<close> that follows unlabelled edges from the tail of the
  path until a node with the sync tag turns up, a node repeats or no edge is left. It
  runs on fuel.
\<close>

fun findPathForSyncedCmd_loop ::
  "nat \<Rightarrow> yGraph \<Rightarrow> string \<Rightarrow> real list \<Rightarrow> nat set \<Rightarrow> nat \<Rightarrow> nat option \<Rightarrow> nat list \<Rightarrow> (nat list \<times> real list) option" where
  "findPathForSyncedCmd_loop 0 g tag r adds tail edge extra = None"
| "findPathForSyncedCmd_loop (Suc k) g tag r adds tail edge extra =
     (case edge of
        None \<Rightarrow> Some (extra, r)
      | Some e \<Rightarrow>
          if tail \<in> adds then Some (extra, r)
          else if tag_sync (nodes g ! dst (edges g ! e)) = tag then Some (extra @ [dst (edges g ! e)], r)
          else (case selectAnEdge g r (dst (edges g ! e)) [[]] of
                  (edge', r') \<Rightarrow>
                    findPathForSyncedCmd_loop k g tag r' (insert tail adds) (dst (edges g ! e)) edge'
                      (extra @ [dst (edges g ! e)])))"

definition findPathForSyncedCmd :: "nat \<Rightarrow> world \<Rightarrow> nat \<Rightarrow> command \<Rightarrow> nat \<Rightarrow> (panic + nat list \<times> world) option" where
  "findPathForSyncedCmd k w sid c node =
     (case findPathForCmd (shared (sprite_at w sid)) (names c) node of
        Inl e \<Rightarrow> Some (Inl e)
      | Inr p \<Rightarrow>
          if p = [] then Some (Inr (p, w))
          else (case cmd_group c of
                  None \<Rightarrow> Some (Inl NilDereference)
                | Some gid \<Rightarrow>
                    if list_ex (\<lambda>n. tag_sync (nodes (anim (shared (sprite_at w sid))) ! n) = sync_tag (group_at w gid)) p
                    then Some (Inr (p, w))
                    else (case selectAnEdge (anim (shared (sprite_at w sid))) (rng w) (last p) [[]] of
                            (edge, r1) \<Rightarrow>
                              (case findPathForSyncedCmd_loop k (anim (shared (sprite_at w sid)))
                                      (sync_tag (group_at w gid)) r1 {} (last p) edge [] of
                                 None \<Rightarrow> None
                               | Some (extra, r2) \<Rightarrow>
                                   Some (Inr
                                     (if extra \<noteq> [] \<and>
                                         tag_sync (nodes (anim (shared (sprite_at w sid))) ! last extra) = sync_tag (group_at w gid)
                                      then p @ extra else p,
                                      w\<lparr>rng := r2\<rparr>))))))"

text \<open>The first loop of \<open>ready\<close>: every member has no path left and heads its queue with this group.\<close>

fun ready_members :: "world \<Rightarrow> nat \<Rightarrow> nat list \<Rightarrow> bool" where
  "ready_members w gid [] = True"
| "ready_members w gid (sp # sps) =
     (if path (sprite_at w sp) \<noteq> [] then False
      else if pending_cmds (sprite_at w sp) = [] then False
      else if cmd_group (hd (pending_cmds (sprite_at w sp))) \<noteq> Some gid then False
      else ready_members w gid sps)"

text \<open>
  The inner loop of \<open>ready\<close> over a member's path: it stops at the first node that carries
  the sync tag; a step not joined by a group edge is charged the member's \<open>togo\<close> when it
  is the first step (\<open>first\<close>, the source's \<open>i == 0\<close>) and the time of the node entered
  otherwise. \<open>prev\<close> is the member's anim node at first, then the node before.
\<close>

fun ready_total :: "yGraph \<Rightarrow> string \<Rightarrow> int \<Rightarrow> bool \<Rightarrow> nat \<Rightarrow> nat list \<Rightarrow> int \<Rightarrow> int" where
  "ready_total g tag tg first prev [] tot = tot"
| "ready_total g tag tg first prev (node # rest) tot =
     (if tag_sync (nodes g ! node) = tag then tot
      else ready_total g tag tg False node rest
             (if \<not> connectedByGroupEdge g prev node
              then (if first then tot + tg else tot + time (nodes g ! node))
              else tot))"

text \<open>The second loop: path, total, \<open>eta[sp] = total\<close>, \<open>paths[sp] = path\<close> and the running maximum.\<close>

fun ready_etas :: "nat \<Rightarrow> world \<Rightarrow> nat \<Rightarrow> nat list \<Rightarrow> int \<Rightarrow> (panic + world \<times> int) option" where
  "ready_etas k w gid [] mx = Some (Inr (w, mx))"
| "ready_etas k w gid (sp # sps) mx =
     (case findPathForSyncedCmd k w sp (hd (pending_cmds (sprite_at w sp))) (anim_node (sprite_at w sp)) of
        None \<Rightarrow> None
      | Some (Inl e) \<Rightarrow> Some (Inl e)
      | Some (Inr (p, w1)) \<Rightarrow>
          ready_etas k
            (w1\<lparr>group_at := (group_at w1)(gid := (group_at w1 gid)
                 \<lparr>eta := (eta (group_at w1 gid))(sp :=
                     ready_total (anim (shared (sprite_at w1 sp))) (sync_tag (group_at w1 gid))
                       (togo (sprite_at w1 sp)) True (anim_node (sprite_at w1 sp)) p 0),
                  paths := (paths (group_at w1 gid))(sp := p)\<rparr>)\<rparr>)
            gid sps
            (if ready_total (anim (shared (sprite_at w1 sp))) (sync_tag (group_at w1 gid))
                  (togo (sprite_at w1 sp)) True (anim_node (sprite_at w1 sp)) p 0 > mx
             then ready_total (anim (shared (sprite_at w1 sp))) (sync_tag (group_at w1 gid))
                    (togo (sprite_at w1 sp)) True (anim_node (sprite_at w1 sp)) p 0
             else mx))"

text \<open>The third loop: \<open>eta[sp] = max - eta[sp]\<close> for every entry of the member list.\<close>

fun ready_waits :: "(nat \<Rightarrow> int) \<Rightarrow> int \<Rightarrow> nat list \<Rightarrow> nat \<Rightarrow> int" where
  "ready_waits et mx [] = et"
| "ready_waits et mx (sp # sps) = ready_waits (et(sp := mx - et sp)) mx sps"

definition ready :: "nat \<Rightarrow> world \<Rightarrow> nat \<Rightarrow> (panic + bool \<times> world) option" where
  "ready k w gid =
     (if was_ready (group_at w gid) then Some (Inr (True, w))
      else if \<not> ready_members w gid (sprites (group_at w gid)) then Some (Inr (False, w))
      else (case ready_etas k
                   (w\<lparr>group_at := (group_at w)(gid := (group_at w gid)\<lparr>eta := (\<lambda>_. 0), paths := (\<lambda>_. [])\<rparr>)\<rparr>)
                   gid (sprites (group_at w gid)) 0 of
              None \<Rightarrow> None
            | Some (Inl e) \<Rightarrow> Some (Inl e)
            | Some (Inr (w1, mx)) \<Rightarrow>
                Some (Inr (True,
                  w1\<lparr>group_at := (group_at w1)(gid := (group_at w1 gid)
                       \<lparr>eta := ready_waits (eta (group_at w1 gid)) mx (sprites (group_at w1 gid)),
                        was_ready := True\<rparr>)\<rparr>))))"

section \<open>Snapshots\<close>

record SpriteState =
  Facing :: int
  State_node_id :: int
  Anim_node_id :: int

datatype go_error = PendingWaiters

definition GetSpriteState :: "Sprite \<Rightarrow> SpriteState" where
  "GetSpriteState s =
     \<lparr>Facing = facing s, State_node_id = int (state_node s), Anim_node_id = int (anim_node s)\<rparr>"

text \<open>
  \<open>SetSpriteState\<close> returns an error value (\<open>Some PendingWaiters\<close>, the source's
  "Can't SetSpriteState while there are pending waiters.") or nil (\<open>None\<close>); indexing the
  facings or the nodes out of range panics.
\<close>

definition SetSpriteState_facing :: "world \<Rightarrow> nat \<Rightarrow> SpriteState \<Rightarrow> panic + world" where
  "SetSpriteState_facing w sid st =
     (if thinks (sprite_at w sid) = 0 then
        sheet_Load
          (w\<lparr>sprite_at := (sprite_at w)(sid := (sprite_at w sid)
               \<lparr>prev_facing := facing (sprite_at w sid), facing := Facing st, state_facing := Facing st\<rparr>)\<rparr>)
          sid (Facing st)
      else if Facing st \<noteq> facing (sprite_at w sid) then
        sheet_Load
          (w\<lparr>sprite_at := (sprite_at w)(sid := (sprite_at w sid)
               \<lparr>facing := Facing st, state_facing := Facing st\<rparr>)\<rparr>)
          sid (Facing st)
      else Inr w)"

definition SetSpriteState :: "world \<Rightarrow> nat \<Rightarrow> SpriteState \<Rightarrow> panic + world \<times> go_error option" where
  "SetSpriteState w sid st =
     (if length (waiters (sprite_at w sid)) \<noteq> 0 then Inr (w, Some PendingWaiters)
      else (case SetSpriteState_facing w sid st of
              Inl e \<Rightarrow> Inl e
            | Inr w1 \<Rightarrow>
                (case Node (anim (shared (sprite_at w1 sid))) (Anim_node_id st) of
                   Inl e \<Rightarrow> Inl e
                 | Inr a \<Rightarrow>
                     (case Node (state (shared (sprite_at w1 sid))) (State_node_id st) of
                        Inl e \<Rightarrow> Inl e
                      | Inr b \<Rightarrow>
                          Inr (w1\<lparr>sprite_at := (sprite_at w1)(sid := (sprite_at w1 sid)
                                    \<lparr>anim_node := a, state_node := b, path := [], pending_cmds := []\<rparr>)\<rparr>,
                               None)))))"


section \<open>The Think loop\<close>

text \<open>
  \<open>edgeTo a b\<close>: the first group output of \<open>a\<close> that ends in \<open>b\<close> or in a group around
  \<open>b\<close>. The walk up the groups of \<open>b\<close> runs on fuel.
\<close>

fun edgeTo_up :: "nat \<Rightarrow> yGraph \<Rightarrow> nat \<Rightarrow> nat option \<Rightarrow> bool option" where
  "edgeTo_up 0 g d cb = None"
| "edgeTo_up (Suc k) g d None = Some False"
| "edgeTo_up (Suc k) g d (Some n) = (if d = n then Some True else edgeTo_up k g d (ngroup (nodes g ! n)))"

fun edgeTo_loop :: "nat \<Rightarrow> yGraph \<Rightarrow> nat list \<Rightarrow> nat \<Rightarrow> nat option option" where
  "edgeTo_loop k g [] b = Some None"
| "edgeTo_loop k g (e # es) b =
     (case edgeTo_up k g (dst (edges g ! e)) (Some b) of
        None \<Rightarrow> None
      | Some True \<Rightarrow> Some (Some e)
      | Some False \<Rightarrow> edgeTo_loop k g es b)"

definition edgeTo :: "nat \<Rightarrow> yGraph \<Rightarrow> nat \<Rightarrow> nat \<Rightarrow> nat option option" where
  "edgeTo k g a b = edgeTo_loop k g (group_outputs (nodes g ! a)) b"

text \<open>
  \<open>Think\<close> is cut at its comments into the one-time setup (before the check of \<open>dt\<close>),
  the resolution of the head command, the group-edge shortcut, the tick itself and the
  deferred check for waiters. A panic ends the run: the deferred function is not
  followed after one.
\<close>

definition Think_setup :: "world \<Rightarrow> nat \<Rightarrow> panic + world" where
  "Think_setup w sid =
     (if thinks (sprite_at w sid) = 0 then
        (case sheet_Load w sid 0 of
           Inl e \<Rightarrow> Inl e
         | Inr w1 \<Rightarrow>
             Inr (w1\<lparr>sprite_at := (sprite_at w1)(sid := (sprite_at w1 sid)
                       \<lparr>togo := time (nodes (anim (shared (sprite_at w1 sid))) ! anim_node (sprite_at w1 sid)),
                        thinks := Suc (thinks (sprite_at w1 sid))\<rparr>)\<rparr>))
      else Inr (w\<lparr>sprite_at := (sprite_at w)(sid := (sprite_at w sid)
                    \<lparr>thinks := Suc (thinks (sprite_at w sid))\<rparr>)\<rparr>))"

text \<open>\<open>applyPath(path)\<close> followed by \<open>pending_cmds = pending_cmds[1:]\<close>.\<close>

definition Think_take :: "world \<Rightarrow> nat \<Rightarrow> nat list \<Rightarrow> world" where
  "Think_take w sid p =
     w\<lparr>sprite_at := (sprite_at w)(sid := (sprite_at w sid)
         \<lparr>path := path (sprite_at w sid) @ p, pending_cmds := tl (pending_cmds (sprite_at w sid))\<rparr>)\<rparr>"

text \<open>The grouped sprite is put on the first node of its path: node, trigger, time.\<close>

definition Think_snap :: "world \<Rightarrow> nat \<Rightarrow> nat \<Rightarrow> world" where
  "Think_snap w sid n =
     (let w1 = doTrigger (w\<lparr>sprite_at := (sprite_at w)(sid := (sprite_at w sid)\<lparr>anim_node := n\<rparr>)\<rparr>) sid
      in w1\<lparr>sprite_at := (sprite_at w1)(sid := (sprite_at w1 sid)
              \<lparr>togo := time (nodes (anim (shared (sprite_at w1 sid))) ! n)\<rparr>)\<rparr>)"

definition Think_set_eta :: "world \<Rightarrow> nat \<Rightarrow> nat \<Rightarrow> int \<Rightarrow> world" where
  "Think_set_eta w gid sid t =
     w\<lparr>group_at := (group_at w)(gid := (group_at w gid)\<lparr>eta := (eta (group_at w gid))(sid := t)\<rparr>)\<rparr>"

definition Think_resolve :: "nat \<Rightarrow> world \<Rightarrow> nat \<Rightarrow> int \<Rightarrow> (panic + world) option" where
  "Think_resolve k w sid dt =
     (if length (pending_cmds (sprite_at w sid)) > 0 \<and> length (path (sprite_at w sid)) = 0 then
        (case cmd_group (hd (pending_cmds (sprite_at w sid))) of
           None \<Rightarrow>
             (case findPathForCmd (shared (sprite_at w sid)) (names (hd (pending_cmds (sprite_at w sid))))
                     (anim_node (sprite_at w sid)) of
                Inl e \<Rightarrow> Some (Inl e)
              | Inr p \<Rightarrow> Some (Inr (if p = [] then w else Think_take w sid p)))
         | Some gid \<Rightarrow>
             (case ready k w gid of
                None \<Rightarrow> None
              | Some (Inl e) \<Rightarrow> Some (Inl e)
              | Some (Inr (False, w1)) \<Rightarrow> Some (Inr w1)
              | Some (Inr (True, w1)) \<Rightarrow>
                  if eta (group_at w1 gid) sid - dt \<le> 0 then
                    (case paths (group_at w1 gid) sid of
                       [] \<Rightarrow> Some (Inl IndexOutOfRange)
                     | n # rest \<Rightarrow>
                         Some (Inr (Think_take
                           (Think_set_eta (Think_snap w1 sid n) gid sid (eta (group_at w1 gid) sid - dt))
                           sid rest)))
                  else Some (Inr (Think_set_eta w1 gid sid (eta (group_at w1 gid) sid - dt)))))
      else Some (Inr w))"

text \<open>The loop over the group outputs of the current node: an edge of a group around it that ends in the next node of the path sets \<open>togo\<close> to 0.\<close>

fun Think_group_loop :: "yGraph \<Rightarrow> nat \<Rightarrow> nat \<Rightarrow> nat list \<Rightarrow> int \<Rightarrow> int" where
  "Think_group_loop g a p0 [] tg = tg"
| "Think_group_loop g a p0 (e # es) tg =
     (if src (edges g ! e) = a then Think_group_loop g a p0 es tg
      else if dst (edges g ! e) = p0 then Think_group_loop g a p0 es 0
      else Think_group_loop g a p0 es tg)"

definition Think_group_edge :: "world \<Rightarrow> nat \<Rightarrow> world" where
  "Think_group_edge w sid =
     (if length (path (sprite_at w sid)) > 0
         \<and> ngroup (nodes (anim (shared (sprite_at w sid))) ! anim_node (sprite_at w sid)) \<noteq> None
      then w\<lparr>sprite_at := (sprite_at w)(sid := (sprite_at w sid)
               \<lparr>togo := Think_group_loop (anim (shared (sprite_at w sid))) (anim_node (sprite_at w sid))
                          (hd (path (sprite_at w sid)))
                          (group_outputs (nodes (anim (shared (sprite_at w sid))) ! anim_node (sprite_at w sid)))
                          (togo (sprite_at w sid))\<rparr>)\<rparr>
      else w)"

text \<open>The branch \<open>togo >= dt\<close>: the time is taken off and a changed facing swaps the sheets.\<close>

definition Think_stay :: "world \<Rightarrow> nat \<Rightarrow> int \<Rightarrow> panic + world" where
  "Think_stay w sid dt =
     (if facing (sprite_at w sid) \<noteq> prev_facing (sprite_at w sid) then
        (case sheet_Unload
                (w\<lparr>sprite_at := (sprite_at w)(sid := (sprite_at w sid)\<lparr>togo := togo (sprite_at w sid) - dt\<rparr>)\<rparr>)
                sid (prev_facing (sprite_at w sid)) of
           Inl e \<Rightarrow> Inl e
         | Inr w1 \<Rightarrow>
             (case sheet_Load w1 sid (facing (sprite_at w1 sid)) of
                Inl e \<Rightarrow> Inl e
              | Inr w2 \<Rightarrow>
                  Inr (w2\<lparr>sprite_at := (sprite_at w2)(sid := (sprite_at w2 sid)
                            \<lparr>prev_facing := facing (sprite_at w2 sid)\<rparr>)\<rparr>)))
      else Inr (w\<lparr>sprite_at := (sprite_at w)(sid := (sprite_at w sid)\<lparr>togo := togo (sprite_at w sid) - dt\<rparr>)\<rparr>))"

text \<open>The choice of the next node: the head of the path, else the end of an unlabelled edge, else the node itself.\<close>

definition Think_next :: "world \<Rightarrow> nat \<Rightarrow> nat \<times> world" where
  "Think_next w sid =
     (if length (path (sprite_at w sid)) > 0 then
        (hd (path (sprite_at w sid)),
         w\<lparr>sprite_at := (sprite_at w)(sid := (sprite_at w sid)\<lparr>path := tl (path (sprite_at w sid))\<rparr>)\<rparr>)
      else (case selectAnEdge (anim (shared (sprite_at w sid))) (rng w) (anim_node (sprite_at w sid)) [[]] of
              (None, r) \<Rightarrow> (anim_node (sprite_at w sid), w\<lparr>rng := r\<rparr>)
            | (Some e, r) \<Rightarrow> (dst (edges (anim (shared (sprite_at w sid))) ! e), w\<lparr>rng := r\<rparr>)))"

text \<open>The move onto the next node: the facing turns by the edge's delta, then node, trigger, time.\<close>

definition Think_move :: "nat \<Rightarrow> world \<Rightarrow> nat \<Rightarrow> nat \<Rightarrow> (panic + world) option" where
  "Think_move k w sid nxt =
     (case edgeTo k (anim (shared (sprite_at w sid))) (anim_node (sprite_at w sid)) nxt of
        None \<Rightarrow> None
      | Some edge \<Rightarrow>
          (if (case edge of None \<Rightarrow> 0 | Some e \<Rightarrow> ed_facing (edges (anim (shared (sprite_at w sid))) ! e)) \<noteq> 0
              \<and> num_facings (shared (sprite_at w sid)) = 0
           then Some (Inl DivideByZero)
           else Some (Inr (Think_snap
                  (w\<lparr>sprite_at := (sprite_at w)(sid := (sprite_at w sid)
                       \<lparr>facing :=
                          (if (case edge of None \<Rightarrow> 0 | Some e \<Rightarrow> ed_facing (edges (anim (shared (sprite_at w sid))) ! e)) \<noteq> 0
                           then (facing (sprite_at w sid)
                                  + (case edge of None \<Rightarrow> 0 | Some e \<Rightarrow> ed_facing (edges (anim (shared (sprite_at w sid))) ! e))
                                  + int (num_facings (shared (sprite_at w sid))))
                                smod int (num_facings (shared (sprite_at w sid)))
                           else facing (sprite_at w sid))\<rparr>)\<rparr>)
                  sid nxt))))"

datatype tick = Returned world | Again world int

definition Think_tick :: "nat \<Rightarrow> world \<Rightarrow> nat \<Rightarrow> int \<Rightarrow> (panic + tick) option" where
  "Think_tick k w sid dt =
     (if togo (sprite_at w sid) \<ge> dt then
        (case Think_stay w sid dt of Inl e \<Rightarrow> Some (Inl e) | Inr w1 \<Rightarrow> Some (Inr (Returned w1)))
      else (case Think_next w sid of
              (nxt, w1) \<Rightarrow>
                (case Think_move k w1 sid nxt of
                   None \<Rightarrow> None
                 | Some (Inl e) \<Rightarrow> Some (Inl e)
                 | Some (Inr w2) \<Rightarrow> Some (Inr (Again w2 (dt - togo (sprite_at w sid)))))))"

text \<open>
  Modelled from the spec: \<open>algorithm.Choose\<close> (package util/algorithm of this repository)
  is not among the sources. The spec says of the waiters that each "resolves at most once
  and is then removed"; \<open>Choose\<close> keeps, in order, the elements of the slice for which the
  chooser holds.
\<close>

definition Choose :: "'a list \<Rightarrow> ('a \<Rightarrow> bool) \<Rightarrow> 'a list" where
  "Choose xs chooser = filter chooser xs"

text \<open>
  The deferred function of \<open>Think\<close>. Its outer loop runs over the indices the waiter list
  had when the loop began, while \<open>Choose\<close> shortens the list inside the loop; an index past
  the end panics. The inner loop sends on the channel once for every state of the waiter
  that equals the sprite's anim state and then sets the waiter's states to nil.
\<close>

fun Think_waiters_loop :: "world \<Rightarrow> nat \<Rightarrow> nat list \<Rightarrow> panic + world" where
  "Think_waiters_loop w sid [] = Inr w"
| "Think_waiters_loop w sid (i # rest) =
     (if i \<ge> length (waiters (sprite_at w sid)) then Inl IndexOutOfRange
      else Think_waiters_loop
             (w\<lparr>events := events w @
                   map (\<lambda>_. Signal sid (chan (waiters (sprite_at w sid) ! i)))
                     (filter (\<lambda>st. st = AnimState (sprite_at w sid))
                        (case states (waiters (sprite_at w sid) ! i) of None \<Rightarrow> [] | Some sts \<Rightarrow> sts)),
                sprite_at := (sprite_at w)(sid := (sprite_at w sid)
                  \<lparr>waiters := Choose
                     ((waiters (sprite_at w sid))[i :=
                        (if filter (\<lambda>st. st = AnimState (sprite_at w sid))
                              (case states (waiters (sprite_at w sid) ! i) of None \<Rightarrow> [] | Some sts \<Rightarrow> sts) = []
                         then waiters (sprite_at w sid) ! i
                         else (waiters (sprite_at w sid) ! i)\<lparr>states := None\<rparr>)])
                     (\<lambda>x. states x \<noteq> None)\<rparr>)\<rparr>)
             sid rest)"

definition Think_waiters :: "world \<Rightarrow> nat \<Rightarrow> panic + world" where
  "Think_waiters w sid =
     (if NumPendingCmds (sprite_at w sid) > 0 then Inr w
      else Think_waiters_loop w sid [0..<length (waiters (sprite_at w sid))])"

text \<open>
  \<open>Think\<close> calls itself with what is left of \<open>dt\<close> after a move, which need not end (a
  round of nodes of time 0), so it runs on fuel: \<open>None\<close> is a run that did not finish
  within the fuel.
\<close>

fun Think :: "nat \<Rightarrow> world \<Rightarrow> nat \<Rightarrow> int \<Rightarrow> (panic + world) option" where
  "Think 0 w sid dt = None"
| "Think (Suc k) w sid dt =
     (case Think_setup w sid of
        Inl e \<Rightarrow> Some (Inl e)
      | Inr w1 \<Rightarrow>
          if dt < 0 then Some (Inr w1)
          else (case Think_resolve (Suc k) w1 sid dt of
                  None \<Rightarrow> None
                | Some (Inl e) \<Rightarrow> Some (Inl e)
                | Some (Inr w2) \<Rightarrow>
                    (case Think_tick (Suc k) (Think_group_edge w2 sid) sid dt of
                       None \<Rightarrow> None
                     | Some (Inl e) \<Rightarrow> Some (Inl e)
                     | Some (Inr (Returned w3)) \<Rightarrow> Some (Think_waiters w3 sid)
                     | Some (Inr (Again w3 dt')) \<Rightarrow>
                         (case Think k w3 sid dt' of
                            None \<Rightarrow> None
                          | Some (Inl e) \<Rightarrow> Some (Inl e)
                          | Some (Inr w4) \<Rightarrow> Some (Think_waiters w4 sid)))))"


text \<open>The registration half of \<open>Sprite.Wait\<close>: a new waiter at the end of the list. (The caller then blocks on the channel.)\<close>

definition Wait :: "world \<Rightarrow> nat \<Rightarrow> string list option \<Rightarrow> nat \<Rightarrow> world" where
  "Wait w sid sts ch =
     w\<lparr>sprite_at := (sprite_at w)(sid := (sprite_at w sid)
         \<lparr>waiters := waiters (sprite_at w sid) @ [\<lparr>states = sts, chan = ch\<rparr>]\<rparr>)\<rparr>"

section \<open>What the claims speak of\<close>





text \<open>Calls in a row, and what a caller can see of one sprite afterwards: the name of its anim node, its \<open>togo\<close>, the number of its pending commands, and the log.\<close>

definition and_then :: "(panic + world) option \<Rightarrow> (world \<Rightarrow> (panic + world) option) \<Rightarrow> (panic + world) option" where
  "and_then r f = (case r of None \<Rightarrow> None | Some (Inl e) \<Rightarrow> Some (Inl e) | Some (Inr w) \<Rightarrow> f w)"

definition observe :: "nat \<Rightarrow> (panic + world) option \<Rightarrow> (panic + string \<times> int \<times> nat \<times> event list) option" where
  "observe sid r =
     (case r of
        None \<Rightarrow> None
      | Some (Inl e) \<Rightarrow> Some (Inl e)
      | Some (Inr w) \<Rightarrow>
          Some (Inr (line0 (nodes (anim (shared (sprite_at w sid))) ! anim_node (sprite_at w sid)),
                     togo (sprite_at w sid), NumPendingCmds (sprite_at w sid), events w)))"



section \<open>Example sprites\<close>

text \<open>
  The sprite of the spec's example: the anim graph has the start node "idle" (time 100)
  and one edge, labelled "walk", to the node "walking" (time 50, with a trigger "step");
  the state graph has the same shape. One facing. The store holds this sprite at every
  address; sprite 0 has a trigger function.
\<close>

definition walk_state :: yGraph where
  "walk_state =
     \<lparr>nodes =
        [\<lparr>line0 = ''idle'', tag_sync = [], tag_func = [], ngroup = None, outputs = [0],
          group_outputs = [0], time = 0, nd_state = []\<rparr>,
         \<lparr>line0 = ''walking'', tag_sync = [], tag_func = [], ngroup = None, outputs = [],
          group_outputs = [], time = 0, nd_state = []\<rparr>],
      edges = [\<lparr>src = 0, dst = 1, ed_facing = 0, weight = 1, cmd = ''walk''\<rparr>]\<rparr>"

definition walk_anim :: yGraph where
  "walk_anim =
     \<lparr>nodes =
        [\<lparr>line0 = ''idle'', tag_sync = [], tag_func = [], ngroup = None, outputs = [0],
          group_outputs = [0], time = 100, nd_state = ''idle''\<rparr>,
         \<lparr>line0 = ''walking'', tag_sync = [], tag_func = ''step'', ngroup = None, outputs = [],
          group_outputs = [], time = 50, nd_state = ''walking''\<rparr>],
      edges = [\<lparr>src = 0, dst = 1, ed_facing = 0, weight = 1, cmd = ''walk''\<rparr>]\<rparr>"

definition walk_shared :: sharedSprite where
  "walk_shared = \<lparr>anim = walk_anim, state = walk_state, anim_start = 0, state_start = 0, num_facings = 1\<rparr>"

definition no_group :: commandGroup where
  "no_group = \<lparr>sync_tag = [], sprites = [], was_ready = False, eta = (\<lambda>_. 0), paths = (\<lambda>_. [])\<rparr>"

definition walk_world :: world where
  "walk_world =
     SetTriggerFunc
       \<lparr>sprite_at = (\<lambda>_. LoadSprite walk_shared), group_at = (\<lambda>_. no_group), rng = [], events = [],
        next_group = 0\<rparr> 0"



text \<open>
  Two sprites of one group with the sync tag "hit". Both stand on "idle" with 40 ms to
  go. Sprite 0 is to "attack": idle, windup, swing (80 ms), impact. Sprite 1 is to "jab":
  idle, jab, impact. The node "impact" carries the sync tag.
\<close>

definition strike_anim :: yGraph where
  "strike_anim =
     \<lparr>nodes =
        [\<lparr>line0 = ''idle'', tag_sync = [], tag_func = [], ngroup = None, outputs = [0, 3],
          group_outputs = [0, 3], time = 100, nd_state = ''idle''\<rparr>,
         \<lparr>line0 = ''windup'', tag_sync = [], tag_func = [], ngroup = None, outputs = [1],
          group_outputs = [1], time = 50, nd_state = ''attack''\<rparr>,
         \<lparr>line0 = ''swing'', tag_sync = [], tag_func = [], ngroup = None, outputs = [2],
          group_outputs = [2], time = 80, nd_state = ''attack''\<rparr>,
         \<lparr>line0 = ''impact'', tag_sync = ''hit'', tag_func = [], ngroup = None, outputs = [],
          group_outputs = [], time = 60, nd_state = ''attack''\<rparr>,
         \<lparr>line0 = ''jab'', tag_sync = [], tag_func = [], ngroup = None, outputs = [4],
          group_outputs = [4], time = 30, nd_state = ''attack''\<rparr>],
      edges =
        [\<lparr>src = 0, dst = 1, ed_facing = 0, weight = 1, cmd = ''attack''\<rparr>,
         \<lparr>src = 1, dst = 2, ed_facing = 0, weight = 1, cmd = []\<rparr>,
         \<lparr>src = 2, dst = 3, ed_facing = 0, weight = 1, cmd = []\<rparr>,
         \<lparr>src = 0, dst = 4, ed_facing = 0, weight = 1, cmd = ''jab''\<rparr>,
         \<lparr>src = 4, dst = 3, ed_facing = 0, weight = 1, cmd = []\<rparr>]\<rparr>"

definition strike_shared :: sharedSprite where
  "strike_shared = \<lparr>anim = strike_anim, state = walk_state, anim_start = 0, state_start = 0, num_facings = 1\<rparr>"

definition strike_sprite :: "string \<Rightarrow> Sprite" where
  "strike_sprite name =
     (LoadSprite strike_shared)
       \<lparr>thinks := 1, togo := 40, pending_cmds := [\<lparr>names = [name], cmd_group = Some 0\<rparr>]\<rparr>"

definition strike_world :: world where
  "strike_world =
     \<lparr>sprite_at = (\<lambda>sid. if sid = 0 then strike_sprite ''attack'' else strike_sprite ''jab''),
      group_at = (\<lambda>_. \<lparr>sync_tag = ''hit'', sprites = [0, 1], was_ready = False, eta = (\<lambda>_. 0), paths = (\<lambda>_. [])\<rparr>),
      rng = [], events = [], next_group = 1\<rparr>"


section \<open>The traversal graph of the path finder\<close>




section \<open>What Think leaves alone\<close>



























section \<open>Think with no time passing\<close>






section \<open>Think with a negative time step\<close>

text \<open>
  Claim C9, as the code has it: for a negative \<open>dt\<close>, \<open>Think\<close> returns without a panic
  (on the first call of a sprite this needs a facing 0 to load) and leaves the anim node,
  the state node, the facing, the path, the pending commands and the waiters as they
  were; no waiter is signalled. \<open>togo\<close> is unchanged when the sprite has thought before;
  on its first call it is set to the duration of the current node, and facing 0 is
  loaded. The think counter goes up by one.
\<close>

theorem C9_negative_dt:
  assumes "dt < 0"
      and "thinks (sprite_at w sid) = 0 \<longrightarrow> 0 < num_facings (shared (sprite_at w sid))"
  shows "\<exists>w'. Think (Suc k) w sid dt = Some (Inr w')
           \<and> anim_node (sprite_at w' sid) = anim_node (sprite_at w sid)
           \<and> state_node (sprite_at w' sid) = state_node (sprite_at w sid)
           \<and> facing (sprite_at w' sid) = facing (sprite_at w sid)
           \<and> path (sprite_at w' sid) = path (sprite_at w sid)
           \<and> pending_cmds (sprite_at w' sid) = pending_cmds (sprite_at w sid)
           \<and> waiters (sprite_at w' sid) = waiters (sprite_at w sid)
           \<and> togo (sprite_at w' sid) =
               (if thinks (sprite_at w sid) = 0
                then time (nodes (anim (shared (sprite_at w sid))) ! anim_node (sprite_at w sid))
                else togo (sprite_at w sid))
           \<and> events w' = (if thinks (sprite_at w sid) = 0 then events w @ [Load sid 0] else events w)
           \<and> thinks (sprite_at w' sid) = Suc (thinks (sprite_at w sid))"
  using assms by (auto simp: Think_setup_def sheet_Load_def)

text \<open>Witness for C9: sprite 0 of the barrier example has thought before; its 40 ms stay.\<close>

theorem C9_witness:
  "(- 5 :: int) < 0
   \<and> (\<exists>w'. Think 1 strike_world 0 (- 5) = Some (Inr w')
         \<and> anim_node (sprite_at w' 0) = 0 \<and> togo (sprite_at w' 0) = 40
         \<and> length (pending_cmds (sprite_at w' 0)) = 1 \<and> events w' = [] \<and> thinks (sprite_at w' 0) = 2)"
proof -
  have s: "sprite_at strike_world 0 = strike_sprite ''attack''" "events strike_world = []"
    by (simp_all add: strike_world_def)
  have h: "thinks (sprite_at strike_world 0) = 0 \<longrightarrow> 0 < num_facings (shared (sprite_at strike_world 0))"
    by (simp add: s strike_sprite_def)
  from C9_negative_dt [of "- 5" strike_world 0 0, OF _ h] obtain w' where
    "Think (Suc 0) strike_world 0 (- 5) = Some (Inr w')"
    "anim_node (sprite_at w' 0) = anim_node (sprite_at strike_world 0)"
    "pending_cmds (sprite_at w' 0) = pending_cmds (sprite_at strike_world 0)"
    "togo (sprite_at w' 0) =
       (if thinks (sprite_at strike_world 0) = 0
        then time (nodes (anim (shared (sprite_at strike_world 0))) ! anim_node (sprite_at strike_world 0))
        else togo (sprite_at strike_world 0))"
    "events w' = (if thinks (sprite_at strike_world 0) = 0 then events strike_world @ [Load 0 0] else events strike_world)"
    "thinks (sprite_at w' 0) = Suc (thinks (sprite_at strike_world 0))"
    by auto
  then have "Think 1 strike_world 0 (- 5) = Some (Inr w')
         \<and> anim_node (sprite_at w' 0) = 0 \<and> togo (sprite_at w' 0) = 40
         \<and> length (pending_cmds (sprite_at w' 0)) = 1 \<and> events w' = [] \<and> thinks (sprite_at w' 0) = 2"
    by (simp add: s strike_sprite_def LoadSprite_def strike_shared_def del: Think.simps)
  then show ?thesis by (simp del: Think.simps)
qed

text \<open>
  Claim C9 as stated fails: a freshly loaded sprite has \<open>togo = 0\<close>; its first
  \<open>Think\<close>, with \<open>dt = -1\<close>, sets \<open>togo\<close> to 100, the duration of "idle".
\<close>

theorem C9_first_negative_think_sets_togo:
  "togo (sprite_at walk_world 0) = 0
   \<and> observe 0 (Think 1 walk_world 0 (- 1)) = Some (Inr (''idle'', 100, 0, [Load 0 0]))"
  by code_simp

section \<open>The one-time setup\<close>



section \<open>Snapshots\<close>

text \<open>
  Claim C7: \<open>SetSpriteState\<close> returns an error exactly when the sprite has a waiter;
  with the error the store is what it was; when it returns nil, the pending commands and
  the path are empty and the facing, the state node and the anim node are those of the
  snapshot.
\<close>

theorem C7_SetSpriteState:
  "((\<exists>w1 err. SetSpriteState w sid st = Inr (w1, Some err)) \<longleftrightarrow> waiters (sprite_at w sid) \<noteq> [])
   \<and> (SetSpriteState w sid st = Inr (w', Some err) \<longrightarrow> w' = w)
   \<and> (SetSpriteState w sid st = Inr (w', None) \<longrightarrow>
        pending_cmds (sprite_at w' sid) = [] \<and> path (sprite_at w' sid) = []
        \<and> facing (sprite_at w' sid) = Facing st
        \<and> int (state_node (sprite_at w' sid)) = State_node_id st
        \<and> int (anim_node (sprite_at w' sid)) = Anim_node_id st)"
  by (auto simp: SetSpriteState_def SetSpriteState_facing_def sheet_Load_def Node_def
           split: if_splits sum.splits)

text \<open>Witness for C7: the example sprite with one waiter registered, and without.\<close>

theorem C7_witness:
  "SetSpriteState (Wait walk_world 0 (Some [''walking'']) 7) 0 \<lparr>Facing = 0, State_node_id = 1, Anim_node_id = 1\<rparr>
     = Inr (Wait walk_world 0 (Some [''walking'']) 7, Some PendingWaiters)
   \<and> waiters (sprite_at (Wait walk_world 0 (Some [''walking'']) 7) 0) \<noteq> []
   \<and> (\<exists>w'. SetSpriteState walk_world 0 \<lparr>Facing = 0, State_node_id = 1, Anim_node_id = 1\<rparr> = Inr (w', None)
         \<and> pending_cmds (sprite_at w' 0) = [] \<and> path (sprite_at w' 0) = [] \<and> facing (sprite_at w' 0) = 0
         \<and> state_node (sprite_at w' 0) = 1 \<and> anim_node (sprite_at w' 0) = 1)"
proof -
  let ?st = "\<lparr>Facing = 0, State_node_id = 1, Anim_node_id = 1\<rparr>"
  let ?ww = "Wait walk_world 0 (Some [''walking'']) 7"
  have a: "waiters (sprite_at ?ww 0) \<noteq> []" by (simp add: Wait_def)
  from a C7_SetSpriteState [of ?ww 0 ?st] obtain w1 err where e: "SetSpriteState ?ww 0 ?st = Inr (w1, Some err)"
    by blast
  with C7_SetSpriteState [of ?ww 0 ?st w1 err] have "w1 = ?ww" by blast
  moreover have "err = PendingWaiters" by (cases err) simp
  ultimately have 1: "SetSpriteState ?ww 0 ?st = Inr (?ww, Some PendingWaiters)" using e by simp
  have "\<exists>w'. SetSpriteState walk_world 0 ?st = Inr (w', None)"
    by (simp add: SetSpriteState_def SetSpriteState_facing_def sheet_Load_def Node_def NumNodes_def
          walk_world_def SetTriggerFunc_def LoadSprite_def walk_shared_def walk_anim_def walk_state_def)
  then obtain w' where s: "SetSpriteState walk_world 0 ?st = Inr (w', None)" by blast
  with C7_SetSpriteState [of walk_world 0 ?st w'] have
    "pending_cmds (sprite_at w' 0) = [] \<and> path (sprite_at w' 0) = [] \<and> facing (sprite_at w' 0) = 0
         \<and> state_node (sprite_at w' 0) = 1 \<and> anim_node (sprite_at w' 0) = 1" by simp
  with s 1 a show ?thesis by blast
qed

text \<open>
  Claim C8: for a sprite with no waiters (whose nodes are nodes of its graphs and, if it
  has not thought yet, whose facing is one of its facings), restoring the snapshot just
  taken succeeds and leaves the anim node, the state node and the facing as they were.
\<close>

theorem C8_roundtrip:
  assumes "waiters (sprite_at w sid) = []"
      and "anim_node (sprite_at w sid) < NumNodes (anim (shared (sprite_at w sid)))"
      and "state_node (sprite_at w sid) < NumNodes (state (shared (sprite_at w sid)))"
      and "thinks (sprite_at w sid) = 0 \<longrightarrow>
             0 \<le> facing (sprite_at w sid) \<and> facing (sprite_at w sid) < int (num_facings (shared (sprite_at w sid)))"
  shows "\<exists>w'. SetSpriteState w sid (GetSpriteState (sprite_at w sid)) = Inr (w', None)
           \<and> anim_node (sprite_at w' sid) = anim_node (sprite_at w sid)
           \<and> state_node (sprite_at w' sid) = state_node (sprite_at w sid)
           \<and> facing (sprite_at w' sid) = facing (sprite_at w sid)"
  using assms
  by (auto simp: SetSpriteState_def SetSpriteState_facing_def sheet_Load_def Node_def GetSpriteState_def
           split: if_splits sum.splits)

text \<open>Witness for C8: the freshly loaded example sprite.\<close>

theorem C8_witness:
  "\<exists>w'. SetSpriteState walk_world 0 (GetSpriteState (sprite_at walk_world 0)) = Inr (w', None)
     \<and> anim_node (sprite_at w' 0) = 0 \<and> state_node (sprite_at w' 0) = 0 \<and> facing (sprite_at w' 0) = 0"
proof -
  have s: "sprite_at walk_world 0 = (LoadSprite walk_shared)\<lparr>trigger := True\<rparr>"
    by (simp add: walk_world_def SetTriggerFunc_def)
  have "\<exists>w'. SetSpriteState walk_world 0 (GetSpriteState (sprite_at walk_world 0)) = Inr (w', None)
     \<and> anim_node (sprite_at w' 0) = anim_node (sprite_at walk_world 0)
     \<and> state_node (sprite_at w' 0) = state_node (sprite_at walk_world 0)
     \<and> facing (sprite_at w' 0) = facing (sprite_at walk_world 0)"
    by (rule C8_roundtrip)
       (simp_all add: s LoadSprite_def walk_shared_def walk_anim_def walk_state_def NumNodes_def)
  then show ?thesis by (simp add: s LoadSprite_def walk_shared_def)
qed

section \<open>Command rejection\<close>






section \<open>The walk example\<close>

text \<open>
  Claim C4, as the code has it: the example sprite is told to "walk". \<open>Think(30)\<close> leaves
  it on "idle" with 70 ms to go. The following \<open>Think(70)\<close> uses up the frame and leaves
  it on "idle" with 0 ms to go, without a trigger call: a frame is left only when \<open>dt\<close>
  exceeds the time left. The next call with time passing, \<open>Think(1)\<close>, moves it to
  "walking", calls the trigger of "walking" and leaves 49 of its 50 ms; so does
  \<open>Think(71)\<close> in place of \<open>Think(70)\<close>.
\<close>

theorem C4_walk_example:
  "observe 0 (and_then (Command 3 walk_world 0 ''walk'') (\<lambda>w. Think 3 w 0 30))
     = Some (Inr (''idle'', 70, 0, [Load 0 0]))
   \<and> observe 0 (and_then (and_then (Command 3 walk_world 0 ''walk'') (\<lambda>w. Think 3 w 0 30)) (\<lambda>w. Think 3 w 0 70))
     = Some (Inr (''idle'', 0, 0, [Load 0 0]))
   \<and> observe 0 (and_then (and_then (and_then (Command 3 walk_world 0 ''walk'') (\<lambda>w. Think 3 w 0 30))
                   (\<lambda>w. Think 3 w 0 70)) (\<lambda>w. Think 3 w 0 1))
     = Some (Inr (''walking'', 49, 0, [Load 0 0, Trigger 0 ''step'']))
   \<and> observe 0 (and_then (and_then (Command 3 walk_world 0 ''walk'') (\<lambda>w. Think 3 w 0 30)) (\<lambda>w. Think 3 w 0 71))
     = Some (Inr (''walking'', 49, 0, [Load 0 0, Trigger 0 ''step'']))"
  by code_simp

text \<open>
  Claim C4 as stated fails: after \<open>Command("walk")\<close> and \<open>Think(30)\<close>, the call
  \<open>Think(70)\<close> leaves the sprite on "idle" with \<open>togo = 0\<close> and calls no trigger; it is
  not on "walking" with \<open>togo = 50\<close>.
\<close>

theorem C4_think_70_stays_on_idle:
  "observe 0 (and_then (and_then (Command 3 walk_world 0 ''walk'') (\<lambda>w. Think 3 w 0 30)) (\<lambda>w. Think 3 w 0 70))
     = Some (Inr (''idle'', 0, 0, [Load 0 0]))"
  by code_simp

section \<open>A grouped command with an empty path\<close>

text \<open>
  The case in general: the head command is grouped, its group is ready, the countdown of
  the sprite is used up by \<open>dt\<close>, and the path stored for the sprite is empty.
\<close>

lemma Think_grouped_empty_path:
  assumes "0 \<le> dt"
      and "thinks (sprite_at w sid) \<noteq> 0"
      and "pending_cmds (sprite_at w sid) \<noteq> []" and "path (sprite_at w sid) = []"
      and "cmd_group (hd (pending_cmds (sprite_at w sid))) = Some gid"
      and "was_ready (group_at w gid)"
      and "eta (group_at w gid) sid \<le> dt"
      and "paths (group_at w gid) sid = []"
  shows "Think (Suc k) w sid dt = Some (Inl IndexOutOfRange)"
  using assms by (simp add: Think_setup_def Think_resolve_def ready_def)

text \<open>
  Claim C5 fails on the code: \<open>CommandSync\<close> with an empty list of names is accepted by
  the example sprite; its group is ready on the next \<open>Think(0)\<close>, stores the empty path
  for it with a wait of 0, and \<open>Think\<close> then reads \<open>path[0]\<close>: the call panics with an
  index out of range.
\<close>

theorem C5_empty_group_path_panics:
  "observe 0 (and_then (CommandSync 3 walk_world [0] [[]] ''go'') (\<lambda>w. Think 3 w 0 0))
     = Some (Inl IndexOutOfRange)"
  by code_simp

section \<open>The barrier\<close>










end
